theory Spec2Isabelle
  imports Main "HOL-Library.Sublist"
begin

section \<open>The inventory ledger of \<^verbatim>\<open>inventory_system.py\<close>\<close>

text \<open>
  The module keeps one dictionary, \<^verbatim>\<open>stock_data: Dict[str, int]\<close>, and mutates it through
  \<^verbatim>\<open>add_item\<close>, \<^verbatim>\<open>remove_item\<close> and \<^verbatim>\<open>load_data\<close>; \<^verbatim>\<open>get_qty\<close>,
  \<^verbatim>\<open>check_low_items\<close> and \<^verbatim>\<open>save_data\<close> read it. The functions receive arbitrary
  Python values and test them with \<^verbatim>\<open>isinstance\<close>, so arguments are values of a datatype of
  Python objects. The dictionary is an association list in insertion order, the calls of the
  \<^verbatim>\<open>logging\<close> module are collected in a list, and the file system is an explicit argument.
  Library behaviour is that of CPython 3.11 (Unicode 14.0).
\<close>

subsection \<open>Strings\<close>

text \<open>
  A Python \<^verbatim>\<open>str\<close> is a sequence of code points, lone surrogates (\<open>0xD800\<close> to
  \<open>0xDFFF\<close>) included. \<open>lit\<close> turns the text of a literal into such a sequence. A string
  encodes as UTF-8 when it holds no surrogate.
\<close>

type_synonym codepoint = nat

type_synonym pystr = "codepoint list"

definition lit :: "string \<Rightarrow> pystr" where
  "lit cs = map of_char cs"

definition utf8_encodable :: "pystr \<Rightarrow> bool" where
  "utf8_encodable s = list_all (\<lambda>c. c < 0xD800 \<or> (0xDFFF < c \<and> c \<le> 0x10FFFF)) s"

subsection \<open>Python values\<close>

text \<open>
  A float is either the finite number \<open>m * 2 ^ e\<close>, an infinity or a NaN (\<^verbatim>\<open>json.load\<close>
  produces the last two for \<^verbatim>\<open>Infinity\<close>, \<^verbatim>\<open>NaN\<close> and for literals such as \<^verbatim>\<open>1e999\<close>).
  The keys of a dictionary read from JSON are strings.
\<close>

datatype pyfloat = FloatNum int int | FloatInf | FloatNegInf | FloatNaN

datatype pyval =
    PyNone
  | PyBool bool
  | PyInt int
  | PyFloat pyfloat
  | PyStr pystr
  | PyList "pyval list"
  | PyDict "(pystr \<times> pyval) list"

datatype py_error =
    TypeError
  | ValueError
  | OverflowError
  | UnicodeDecodeError
  | UnicodeEncodeError
  | RecursionError

text \<open>How a call ends: it returns, or an exception reaches the caller.\<close>

datatype outcome = Returned | Raised py_error

text \<open>\<^verbatim>\<open>isinstance(v, str)\<close>.\<close>

fun isinstance_str :: "pyval \<Rightarrow> bool" where
  "isinstance_str (PyStr _) = True"
| "isinstance_str _ = False"

text \<open>\<^verbatim>\<open>isinstance(v, int)\<close>: \<^verbatim>\<open>bool\<close> is a subclass of \<^verbatim>\<open>int\<close>.\<close>

fun isinstance_int :: "pyval \<Rightarrow> bool" where
  "isinstance_int (PyInt _) = True"
| "isinstance_int (PyBool _) = True"
| "isinstance_int _ = False"

text \<open>
  The guard \<^verbatim>\<open>not isinstance(item, str) or not item\<close> fails exactly on a non-empty string;
  \<open>nonempty_str\<close> yields that string, and \<open>None\<close> where the guard rejects.
\<close>

fun nonempty_str :: "pyval \<Rightarrow> pystr option" where
  "nonempty_str (PyStr name) = (if name = [] then None else Some name)"
| "nonempty_str _ = None"

text \<open>
  The number an instance of \<^verbatim>\<open>int\<close> stands for in arithmetic and comparisons
  (\<^verbatim>\<open>True\<close> is 1, \<^verbatim>\<open>False\<close> is 0); \<open>None\<close> where \<^verbatim>\<open>isinstance(v, int)\<close> is false.
\<close>

fun int_value :: "pyval \<Rightarrow> int option" where
  "int_value (PyInt n) = Some n"
| "int_value (PyBool b) = Some (if b then 1 else 0)"
| "int_value _ = None"

subsection \<open>Integers and decimal text\<close>

text \<open>
  CPython refuses to convert between \<^verbatim>\<open>int\<close> and decimal text when more than
  \<^verbatim>\<open>sys.int_info.default_max_str_digits\<close> digits are involved, and raises
  \<^verbatim>\<open>ValueError\<close>. \<open>str_raises n\<close> says that \<^verbatim>\<open>str(n)\<close> (and with it an f-string field
  and \<^verbatim>\<open>json.dump\<close>) raises for the integer \<open>n\<close>.
\<close>

definition max_str_digits :: nat where
  "max_str_digits = 4300"

fun num_digits :: "nat \<Rightarrow> nat" where
  "num_digits n = (if n < 10 then 1 else Suc (num_digits (n div 10)))"

declare num_digits.simps [simp del]

definition str_raises :: "int \<Rightarrow> bool" where
  "str_raises n = (max_str_digits < num_digits (nat \<bar>n\<bar>))"

text \<open>
  \<^verbatim>\<open>int(s)\<close> on a string. Outside ASCII, a Unicode space becomes a blank and a Unicode
  decimal digit the ASCII digit of its value; any other character above ASCII ends the
  text with a question mark, which no number contains. The decimal digits of Unicode come
  in runs of ten, listed by their zeros.
\<close>

definition unicode_space :: "codepoint \<Rightarrow> bool" where
  "unicode_space c =
     (c \<in> set [0x85, 0xA0, 0x1680, 0x2000, 0x2001, 0x2002, 0x2003, 0x2004, 0x2005, 0x2006,
        0x2007, 0x2008, 0x2009, 0x200A, 0x2028, 0x2029, 0x202F, 0x205F, 0x3000])"

definition decimal_zeros :: "codepoint list" where
  "decimal_zeros =
       [0x660, 0x6F0, 0x7C0, 0x966, 0x9E6, 0xA66, 0xAE6, 0xB66, 0xBE6, 0xC66, 0xCE6, 0xD66,
        0xDE6, 0xE50, 0xED0, 0xF20, 0x1040, 0x1090, 0x17E0, 0x1810, 0x1946, 0x19D0, 0x1A80,
        0x1A90, 0x1B50, 0x1BB0, 0x1C40, 0x1C50, 0xA620, 0xA8D0, 0xA900, 0xA9D0, 0xA9F0,
        0xAA50, 0xABF0, 0xFF10, 0x104A0, 0x10D30, 0x11066, 0x110F0, 0x11136, 0x111D0,
        0x112F0, 0x11450, 0x114D0, 0x11650, 0x116C0, 0x11730, 0x118E0, 0x11950, 0x11C50,
        0x11D50, 0x11DA0, 0x16A60, 0x16AC0, 0x16B50, 0x1D7CE, 0x1D7D8, 0x1D7E2, 0x1D7EC,
        0x1D7F6, 0x1E140, 0x1E2F0, 0x1E950, 0x1FBF0]"

definition unicode_decimal :: "codepoint \<Rightarrow> nat option" where
  "unicode_decimal c =
     map_option (\<lambda>z. c - z) (find (\<lambda>z. z \<le> c \<and> c < z + 10) decimal_zeros)"

fun to_ascii :: "pystr \<Rightarrow> pystr" where
  "to_ascii [] = []"
| "to_ascii (c # cs) =
     (if c < 127 then c # to_ascii cs
      else if unicode_space c then 32 # to_ascii cs
      else (case unicode_decimal c of
              Some d \<Rightarrow> (48 + d) # to_ascii cs
            | None \<Rightarrow> [63]))"

definition is_space :: "codepoint \<Rightarrow> bool" where
  "is_space c = (c \<in> set [32, 9, 10, 11, 12, 13])"

definition is_digit :: "codepoint \<Rightarrow> bool" where
  "is_digit c = (48 \<le> c \<and> c \<le> 57)"

definition digit_value :: "codepoint \<Rightarrow> nat" where
  "digit_value c = c - 48"

text \<open>Digits, where single underscores (code point 95) may stand between two digits.\<close>

fun parse_digits :: "nat \<Rightarrow> pystr \<Rightarrow> nat option" where
  "parse_digits acc [] = Some acc"
| "parse_digits acc [c] = (if is_digit c then Some (acc * 10 + digit_value c) else None)"
| "parse_digits acc (c # d # cs) =
     (if is_digit c then parse_digits (acc * 10 + digit_value c) (d # cs)
      else if c = 95 \<and> is_digit d then parse_digits acc (d # cs)
      else None)"

definition parse_unsigned :: "pystr \<Rightarrow> nat option" where
  "parse_unsigned s =
     (case s of
        [] \<Rightarrow> None
      | c # cs \<Rightarrow>
          if is_digit c \<and> length (filter is_digit s) \<le> max_str_digits
          then parse_digits 0 (c # cs) else None)"

definition strip :: "pystr \<Rightarrow> pystr" where
  "strip s = rev (dropWhile is_space (rev (dropWhile is_space s)))"

text \<open>Surrounding blanks are dropped; then an optional sign (43 is plus, 45 is minus).\<close>

definition int_of_str :: "pystr \<Rightarrow> int option" where
  "int_of_str s =
     (case strip (to_ascii s) of
        [] \<Rightarrow> None
      | c # cs \<Rightarrow>
          if c = 45 then map_option (\<lambda>n. - int n) (parse_unsigned cs)
          else if c = 43 then map_option int (parse_unsigned cs)
          else map_option int (parse_unsigned (c # cs)))"

text \<open>\<^verbatim>\<open>int(x)\<close> on a finite float truncates towards zero.\<close>

definition float_trunc :: "int \<Rightarrow> int \<Rightarrow> int" where
  "float_trunc m e =
     (if 0 \<le> e then m * 2 ^ nat e
      else if 0 \<le> m then m div 2 ^ nat (- e)
      else - ((- m) div 2 ^ nat (- e)))"

text \<open>
  \<^verbatim>\<open>int(v)\<close> for the values \<^verbatim>\<open>json.load\<close> can produce: \<^verbatim>\<open>None\<close>, lists and dictionaries
  raise \<^verbatim>\<open>TypeError\<close>, an unparsable string and NaN raise \<^verbatim>\<open>ValueError\<close>, an infinity
  raises \<^verbatim>\<open>OverflowError\<close>.
\<close>

fun py_int :: "pyval \<Rightarrow> py_error + int" where
  "py_int (PyInt n) = Inr n"
| "py_int (PyBool b) = Inr (if b then 1 else 0)"
| "py_int (PyFloat (FloatNum m e)) = Inr (float_trunc m e)"
| "py_int (PyFloat FloatInf) = Inl OverflowError"
| "py_int (PyFloat FloatNegInf) = Inl OverflowError"
| "py_int (PyFloat FloatNaN) = Inl ValueError"
| "py_int (PyStr s) = (case int_of_str s of Some n \<Rightarrow> Inr n | None \<Rightarrow> Inl ValueError)"
| "py_int PyNone = Inl TypeError"
| "py_int (PyList _) = Inl TypeError"
| "py_int (PyDict _) = Inl TypeError"

subsection \<open>Dictionaries in insertion order\<close>

text \<open>
  A Python \<^verbatim>\<open>dict\<close> iterates in insertion order: \<^verbatim>\<open>d[k] = v\<close> overwrites the value of a
  present key where it stands and appends an absent key at the end; \<^verbatim>\<open>del d[k]\<close> removes
  the key. The keys of a dictionary are distinct.
\<close>

fun dict_lookup :: "('k \<times> 'v) list \<Rightarrow> 'k \<Rightarrow> 'v option" where
  "dict_lookup [] k = None"
| "dict_lookup ((k', v') # d) k = (if k' = k then Some v' else dict_lookup d k)"

text \<open>\<^verbatim>\<open>d.get(k, default)\<close>.\<close>

definition dict_get :: "('k \<times> 'v) list \<Rightarrow> 'k \<Rightarrow> 'v \<Rightarrow> 'v" where
  "dict_get d k dflt = (case dict_lookup d k of None \<Rightarrow> dflt | Some v \<Rightarrow> v)"

fun dict_set :: "('k \<times> 'v) list \<Rightarrow> 'k \<Rightarrow> 'v \<Rightarrow> ('k \<times> 'v) list" where
  "dict_set [] k v = [(k, v)]"
| "dict_set ((k', v') # d) k v =
     (if k' = k then (k, v) # d else (k', v') # dict_set d k v)"

fun dict_del :: "('k \<times> 'v) list \<Rightarrow> 'k \<Rightarrow> ('k \<times> 'v) list" where
  "dict_del [] k = []"
| "dict_del ((k', v') # d) k = (if k' = k then dict_del d k else (k', v') # dict_del d k)"

definition keys :: "('k \<times> 'v) list \<Rightarrow> 'k list" where
  "keys d = map fst d"

definition wf_dict :: "('k \<times> 'v) list \<Rightarrow> bool" where
  "wf_dict d = distinct (keys d)"

subsection \<open>Program state\<close>

text \<open>
  The module-level dictionary and the record of the calls made to the \<^verbatim>\<open>logging\<close> module:
  level, format string and arguments (the text of a caught exception is left out of the
  arguments). A logging call does not raise: the module reports a record it cannot format
  on the error stream and goes on.
\<close>

datatype level = ERROR | WARNING | INFO | DEBUG

type_synonym log_record = "level \<times> string \<times> pyval list"

record state =
  stock_data :: "(pystr \<times> int) list"
  logging :: "log_record list"

definition log_call :: "level \<Rightarrow> string \<Rightarrow> pyval list \<Rightarrow> state \<Rightarrow> state" where
  "log_call lvl fmt args s = s\<lparr>logging := logging s @ [(lvl, fmt, args)]\<rparr>"

text \<open>\<^verbatim>\<open>len(stock_data)\<close> as a Python value.\<close>

definition len_stock :: "state \<Rightarrow> pyval" where
  "len_stock s = PyInt (int (length (stock_data s)))"

text \<open>
  An entry of the caller's \<^verbatim>\<open>logs\<close> list. The source appends the string
  \<^verbatim>\<open>f"{datetime.now()}: Added {qty} of {item}"\<close>; the entry keeps its two arguments and
  leaves the time stamp out.
\<close>

type_synonym change = "pyval \<times> pyval"

subsection \<open>\<^verbatim>\<open>add_item\<close>\<close>

text \<open>
  The f-string of line 46 formats \<^verbatim>\<open>qty\<close> with \<^verbatim>\<open>str\<close>, after the dictionary has been
  written: for an integer of too many digits it raises \<^verbatim>\<open>ValueError\<close>, and nothing is
  appended or logged. A \<^verbatim>\<open>bool\<close> is formatted as \<^verbatim>\<open>True\<close> or \<^verbatim>\<open>False\<close>.
\<close>

fun format_raises :: "pyval \<Rightarrow> bool" where
  "format_raises (PyInt n) = str_raises n"
| "format_raises _ = False"

definition add_item ::
  "pyval \<Rightarrow> pyval \<Rightarrow> change list option \<Rightarrow> state \<Rightarrow> outcome \<times> change list \<times> state" where
  "add_item item qty logs_arg s =
     (let logs = (case logs_arg of None \<Rightarrow> [] | Some l \<Rightarrow> l) in
      case nonempty_str item of
        None \<Rightarrow>
          (Returned, logs,
           log_call ERROR ''add_item: 'item' must be a non-empty string'' [] s)
      | Some name \<Rightarrow>
          (case int_value qty of
             None \<Rightarrow>
               (Returned, logs, log_call ERROR ''add_item: 'qty' must be an integer'' [] s)
           | Some n \<Rightarrow>
               (let previous = dict_get (stock_data s) name 0;
                    s1 = s\<lparr>stock_data := dict_set (stock_data s) name (previous + n)\<rparr>
                in if format_raises qty then (Raised ValueError, logs, s1)
                   else
                     (Returned, logs @ [(qty, item)],
                      log_call INFO ''Added %d of %s (previous: %d, new: %d)''
                        [qty, item, PyInt previous, PyInt (dict_get (stock_data s1) name 0)]
                        s1))))"

subsection \<open>\<^verbatim>\<open>remove_item\<close>\<close>

text \<open>
  The lookup \<^verbatim>\<open>stock_data[item]\<close> raises \<^verbatim>\<open>KeyError\<close> for an absent key; the function
  catches it, so the absent key is a branch that returns.
\<close>

definition remove_item :: "pyval \<Rightarrow> pyval \<Rightarrow> state \<Rightarrow> outcome \<times> state" where
  "remove_item item qty s =
     (case nonempty_str item of
        None \<Rightarrow>
          (Returned, log_call ERROR ''remove_item: 'item' must be a non-empty string'' [] s)
      | Some name \<Rightarrow>
          (case int_value qty of
             None \<Rightarrow>
               (Returned, log_call ERROR ''remove_item: 'qty' must be an integer'' [] s)
           | Some n \<Rightarrow>
               (case dict_lookup (stock_data s) name of
                  None \<Rightarrow>
                    (Returned,
                     log_call WARNING ''remove_item: item '%s' not found in stock'' [item] s)
                | Some current \<Rightarrow>
                    (let new_qty = current - n in
                     if new_qty \<le> 0 then
                       (Returned,
                        log_call INFO
                          ''remove_item: removed item '%s' from stock (was %d, removed %d)''
                          [item, PyInt current, qty]
                          (s\<lparr>stock_data := dict_del (stock_data s) name\<rparr>))
                     else
                       (Returned,
                        log_call INFO ''remove_item: decreased '%s' from %d to %d''
                          [item, PyInt current, PyInt new_qty]
                          (s\<lparr>stock_data := dict_set (stock_data s) name new_qty\<rparr>))))))"

subsection \<open>\<^verbatim>\<open>get_qty\<close>\<close>

definition get_qty :: "pyval \<Rightarrow> state \<Rightarrow> int \<times> state" where
  "get_qty item s =
     (case nonempty_str item of
        None \<Rightarrow> (0, log_call ERROR ''get_qty: 'item' must be a non-empty string'' [] s)
      | Some name \<Rightarrow> (dict_get (stock_data s) name 0, s))"

subsection \<open>\<^verbatim>\<open>check_low_items\<close>\<close>

definition check_low_items :: "pyval \<Rightarrow> state \<Rightarrow> pystr list \<times> state" where
  "check_low_items threshold s =
     (case int_value threshold of
        None \<Rightarrow> ([], log_call ERROR ''check_low_items: 'threshold' must be an integer'' [] s)
      | Some t \<Rightarrow> ([item. (item, qty) \<leftarrow> stock_data s, qty < t], s))"

subsection \<open>Files\<close>

text \<open>
  A file is described by what opening and reading it does. \<open>Unreadable\<close> raises
  \<^verbatim>\<open>OSError\<close> and \<open>NotJson\<close> raises \<^verbatim>\<open>JSONDecodeError\<close>; the handler of \<^verbatim>\<open>load_data\<close>
  catches both. \<open>ReadRaises e\<close> raises an exception \<open>e\<close> that the handler does not catch:
  \<^verbatim>\<open>UnicodeDecodeError\<close> for bytes that are not UTF-8, \<^verbatim>\<open>RecursionError\<close> for a document
  nested too deeply, \<^verbatim>\<open>ValueError\<close> for an integer literal of more than 4300 digits.
  \<open>Json v\<close> is a document for which \<^verbatim>\<open>json.load\<close> returns \<open>v\<close>.
  \<open>files fs path = None\<close> says that \<^verbatim>\<open>os.path.exists(path)\<close> is false.

  \<open>open_write fs path\<close> says what \<^verbatim>\<open>open(path, "w")\<close> does: it succeeds, and the file
  then holds what is written to it and can be read back, or it raises \<^verbatim>\<open>OSError\<close> (a missing directory, no permission) and the file
  stays as it is, or it raises another exception (\<^verbatim>\<open>ValueError\<close> for a path with a NUL
  character, \<^verbatim>\<open>UnicodeEncodeError\<close> for a path the file system cannot encode).
\<close>

datatype file_content = Unreadable | NotJson | ReadRaises py_error | Json pyval

datatype write_access = CanWrite | RaisesOSError | RaisesOther py_error

record filesystem =
  files :: "pystr \<Rightarrow> file_content option"
  open_write :: "pystr \<Rightarrow> write_access"

subsection \<open>\<^verbatim>\<open>load_data\<close>\<close>

text \<open>
  The loop over \<^verbatim>\<open>data.items()\<close>. A key of a JSON object is a string, so \<^verbatim>\<open>str(k)\<close> is
  \<open>k\<close>. The handler of the loop body catches \<^verbatim>\<open>TypeError\<close> and \<^verbatim>\<open>ValueError\<close>; any
  other exception of \<^verbatim>\<open>int(v)\<close> leaves the loop, is not caught by the outer handler
  (\<^verbatim>\<open>OSError\<close>, \<^verbatim>\<open>JSONDecodeError\<close>) either, and reaches the caller with the entries
  stored so far.
\<close>

fun load_items :: "(pystr \<times> pyval) list \<Rightarrow> state \<Rightarrow> outcome \<times> state" where
  "load_items [] s = (Returned, s)"
| "load_items ((k, v) # rest) s =
     (case py_int v of
        Inr n \<Rightarrow> load_items rest (s\<lparr>stock_data := dict_set (stock_data s) k n\<rparr>)
      | Inl e \<Rightarrow>
          if e = TypeError \<or> e = ValueError then
            load_items rest
              (log_call WARNING ''load_data: skipping invalid qty for item '%s': %r''
                 [PyStr k, v] s)
          else (Raised e, s))"

definition load_data :: "pyval \<Rightarrow> filesystem \<Rightarrow> state \<Rightarrow> outcome \<times> state" where
  "load_data file fs s =
     (case nonempty_str file of
        None \<Rightarrow>
          (Returned, log_call ERROR ''load_data: 'file' must be a non-empty string'' [] s)
      | Some path \<Rightarrow>
          (case files fs path of
             None \<Rightarrow>
               (Returned,
                (log_call INFO ''load_data: file '%s' not found; using empty inventory''
                   [file] s)\<lparr>stock_data := []\<rparr>)
           | Some Unreadable \<Rightarrow>
               (Returned,
                (log_call ERROR ''load_data: failed to read %s: %s'' [file] s)
                  \<lparr>stock_data := []\<rparr>)
           | Some NotJson \<Rightarrow>
               (Returned,
                (log_call ERROR ''load_data: failed to read %s: %s'' [file] s)
                  \<lparr>stock_data := []\<rparr>)
           | Some (ReadRaises e) \<Rightarrow> (Raised e, s)
           | Some (Json (PyDict items)) \<Rightarrow>
               (case load_items items (s\<lparr>stock_data := []\<rparr>) of
                  (Returned, s1) \<Rightarrow>
                    (Returned,
                     log_call INFO ''load_data: loaded %d items from %s''
                       [len_stock s1, file] s1)
                | (Raised e, s1) \<Rightarrow> (Raised e, s1))
           | Some (Json _) \<Rightarrow>
               (Returned,
                (log_call WARNING
                   ''load_data: file %s does not contain a JSON object; starting empty''
                   [file] s)\<lparr>stock_data := []\<rparr>)))"

subsection \<open>\<^verbatim>\<open>save_data\<close>\<close>

text \<open>
  \<^verbatim>\<open>json.dump(stock_data, fh, ensure_ascii=False, indent=2)\<close> writes the entries one after
  the other. Writing a key that does not encode as UTF-8 raises \<^verbatim>\<open>UnicodeEncodeError\<close>,
  and converting a value of too many digits raises \<^verbatim>\<open>ValueError\<close>; \<open>json_dump_error\<close> is
  the first exception met, if any. The handler of \<^verbatim>\<open>save_data\<close> catches \<^verbatim>\<open>OSError\<close> only,
  so either exception reaches the caller; the file, truncated when it was opened, then
  holds the beginning of an object and is not JSON.

  Otherwise the text is a JSON object with integer values, and \<^verbatim>\<open>json.load\<close> reads it
  back as the dictionary \<open>json_dump d\<close>: the same keys, in order, with the same integers.
\<close>

fun json_dump_error :: "(pystr \<times> int) list \<Rightarrow> py_error option" where
  "json_dump_error [] = None"
| "json_dump_error ((k, v) # d) =
     (if \<not> utf8_encodable k then Some UnicodeEncodeError
      else if str_raises v then Some ValueError
      else json_dump_error d)"

definition json_dump :: "(pystr \<times> int) list \<Rightarrow> pyval" where
  "json_dump d = PyDict (map (\<lambda>(k, q). (k, PyInt q)) d)"

definition save_data ::
  "pyval \<Rightarrow> filesystem \<Rightarrow> state \<Rightarrow> outcome \<times> filesystem \<times> state" where
  "save_data file fs s =
     (case nonempty_str file of
        None \<Rightarrow>
          (Returned, fs,
           log_call ERROR ''save_data: 'file' must be a non-empty string'' [] s)
      | Some path \<Rightarrow>
          (case open_write fs path of
             RaisesOther e \<Rightarrow> (Raised e, fs, s)
           | RaisesOSError \<Rightarrow>
               (Returned, fs, log_call ERROR ''save_data: failed to write %s: %s'' [file] s)
           | CanWrite \<Rightarrow>
               (case json_dump_error (stock_data s) of
                  Some e \<Rightarrow> (Raised e, fs\<lparr>files := (files fs)(path \<mapsto> NotJson)\<rparr>, s)
                | None \<Rightarrow>
                    (Returned,
                     fs\<lparr>files := (files fs)(path \<mapsto> Json (json_dump (stock_data s)))\<rparr>,
                     log_call INFO ''save_data: saved %d items to %s''
                       [len_stock s, file] s))))"

subsection \<open>Properties of a ledger, example states and files\<close>

text \<open>No entry has a quantity of zero or less.\<close>

definition all_positive :: "(pystr \<times> int) list \<Rightarrow> bool" where
  "all_positive d = list_all (\<lambda>(item, qty). 0 < qty) d"

text \<open>No entry has the empty string as its key.\<close>

definition keys_nonempty :: "(pystr \<times> int) list \<Rightarrow> bool" where
  "keys_nonempty d = list_all (\<lambda>(item, qty). item \<noteq> []) d"

text \<open>\<^verbatim>\<open>json.dump\<close> can write the ledger: every key encodes, every value converts.\<close>

definition serialisable :: "(pystr \<times> int) list \<Rightarrow> bool" where
  "serialisable d = list_all (\<lambda>(item, qty). utf8_encodable item \<and> \<not> str_raises qty) d"

definition empty_state :: state where
  "empty_state = \<lparr>stock_data = [], logging = []\<rparr>"

text \<open>The ledger \<^verbatim>\<open>{"apple": 7, "banana": 2}\<close>.\<close>

definition demo_state :: state where
  "demo_state = \<lparr>stock_data = [(lit ''apple'', 7), (lit ''banana'', 2)], logging = []\<rparr>"

definition three_items :: state where
  "three_items =
     \<lparr>stock_data = [(lit ''pear'', 1), (lit ''apple'', 7), (lit ''banana'', 2)], logging = []\<rparr>"

text \<open>The ledger \<^verbatim>\<open>{"a": 10 ** 4300}\<close>; its value has 4301 digits.\<close>

definition huge :: int where
  "huge = 10 ^ max_str_digits"

definition huge_state :: state where
  "huge_state = \<lparr>stock_data = [(lit ''a'', huge)], logging = []\<rparr>"

text \<open>The ledger whose one key is the letter k followed by a lone surrogate.\<close>

definition surrogate_state :: state where
  "surrogate_state = \<lparr>stock_data = [([0x6B, 0xD800], 1)], logging = []\<rparr>"

text \<open>
  A file system without files where every path can be written, one where no path can be
  written, and one with a single file.
\<close>

definition no_files :: filesystem where
  "no_files = \<lparr>files = (\<lambda>path. None), open_write = (\<lambda>path. CanWrite)\<rparr>"

definition read_only :: filesystem where
  "read_only = \<lparr>files = (\<lambda>path. None), open_write = (\<lambda>path. RaisesOSError)\<rparr>"

definition one_file :: "pystr \<Rightarrow> file_content \<Rightarrow> filesystem" where
  "one_file path content =
     \<lparr>files = (\<lambda>p. if p = path then Some content else None),
      open_write = (\<lambda>p. CanWrite)\<rparr>"

text \<open>The documents \<^verbatim>\<open>{"a": "notanumber", "b": 5}\<close> and \<^verbatim>\<open>{"a": 1, "b": 1e999, "c": 3}\<close>.\<close>

definition mixed_doc :: pyval where
  "mixed_doc = PyDict [(lit ''a'', PyStr (lit ''notanumber'')), (lit ''b'', PyInt 5)]"

definition overflow_doc :: pyval where
  "overflow_doc =
     PyDict [(lit ''a'', PyInt 1), (lit ''b'', PyFloat FloatInf), (lit ''c'', PyInt 3)]"

section \<open>Strings and numbers\<close>

lemma lit_eq_iff [simp]: "lit a = lit b \<longleftrightarrow> a = b"
  by (simp add: lit_def inj_map_eq_map inj_of_char)

lemma lit_Nil_iff [simp]: "lit a = [] \<longleftrightarrow> a = []"
  by (simp add: lit_def)

lemma Nil_lit_iff [simp]: "[] = lit a \<longleftrightarrow> a = []"
  by (auto simp: lit_def)

lemma utf8_encodable_lit [simp]: "utf8_encodable (lit cs)"
proof -
  have "of_char c < (0xD800 :: nat)" for c :: char
    using nat_of_char_less_256 [of c] by linarith
  then show ?thesis
    by (simp add: utf8_encodable_def lit_def list_all_iff)
qed

text \<open>A number has at most \<open>k\<close> digits exactly when it is below \<open>10 ^ k\<close>.\<close>

lemma num_digits_le_iff: "0 < k \<Longrightarrow> num_digits n \<le> k \<longleftrightarrow> n < 10 ^ k"
proof (induction k arbitrary: n)
  case 0
  then show ?case by simp
next
  case (Suc j)
  show ?case
  proof (cases "n < 10")
    case True
    have "(10::nat) \<le> 10 ^ Suc j"
      by (rule self_le_power) simp_all
    with True have "n < 10 ^ Suc j"
      by (rule less_le_trans)
    moreover have "num_digits n = 1"
      using True by (simp add: num_digits.simps [of n])
    ultimately show ?thesis
      by simp
  next
    case False
    then have nd: "num_digits n = Suc (num_digits (n div 10))"
      by (simp add: num_digits.simps [of n])
    show ?thesis
    proof (cases "j = 0")
      case True
      have "0 < num_digits (n div 10)"
        by (simp add: num_digits.simps [of "n div 10"])
      with False True nd show ?thesis
        by simp
    next
      case nz: False
      have "n div 10 < 10 ^ j \<longleftrightarrow> n < 10 * 10 ^ j"
        by (simp add: div_less_iff_less_mult mult.commute)
      with nz nd Suc.IH [of "n div 10"] show ?thesis
        by simp
    qed
  qed
qed

lemma max_str_digits_pos: "0 < max_str_digits"
  by (simp add: max_str_digits_def)

text \<open>\<^verbatim>\<open>str(n)\<close> raises exactly for the integers of magnitude \<open>10 ^ 4300\<close> and above.\<close>

lemma str_raises_iff: "str_raises n \<longleftrightarrow> 10 ^ max_str_digits \<le> \<bar>n\<bar>"
proof -
  have "num_digits (nat \<bar>n\<bar>) \<le> max_str_digits \<longleftrightarrow> nat \<bar>n\<bar> < 10 ^ max_str_digits"
    using max_str_digits_pos by (rule num_digits_le_iff)
  also have "\<dots> \<longleftrightarrow> \<bar>n\<bar> < 10 ^ max_str_digits"
    by (simp add: nat_less_iff)
  finally show ?thesis
    by (auto simp: str_raises_def)
qed

lemma str_raises_huge: "str_raises huge"
  by (simp add: str_raises_iff huge_def)

lemma not_str_raises_small: "\<bar>n\<bar> < 10 \<Longrightarrow> \<not> str_raises n"
proof -
  assume "\<bar>n\<bar> < 10"
  moreover have "(10::int) \<le> 10 ^ max_str_digits"
    using max_str_digits_pos by (intro self_le_power) simp_all
  ultimately show ?thesis
    by (simp add: str_raises_iff)
qed

section \<open>Dictionaries\<close>

lemma keys_Nil: "keys [] = []"
  by (simp add: keys_def)

lemma keys_Cons: "keys ((k, v) # d) = k # keys d"
  by (simp add: keys_def)

lemmas keys_simps = keys_Nil keys_Cons

lemma dict_lookup_set:
  "dict_lookup (dict_set d k v) k' = (if k' = k then Some v else dict_lookup d k')"
  by (induction d) auto

lemma dict_lookup_del:
  "dict_lookup (dict_del d k) k' = (if k' = k then None else dict_lookup d k')"
  by (induction d) auto

lemma dict_lookup_None_iff: "dict_lookup d k = None \<longleftrightarrow> k \<notin> set (keys d)"
  by (induction d) (auto simp: keys_simps split: if_splits)

lemma in_set_keys: "(k, v) \<in> set d \<Longrightarrow> k \<in> set (keys d)"
  by (induction d) (auto simp: keys_simps)

lemma dict_lookup_Some_iff:
  "wf_dict d \<Longrightarrow> dict_lookup d k = Some v \<longleftrightarrow> (k, v) \<in> set d"
  unfolding wf_dict_def
  by (induction d k rule: dict_lookup.induct) (auto simp: keys_simps dest: in_set_keys)

text \<open>Insertion order: a new key goes to the end, a present key keeps its place.\<close>

lemma dict_set_absent: "k \<notin> set (keys d) \<Longrightarrow> dict_set d k v = d @ [(k, v)]"
  by (induction d) (auto simp: keys_simps)

lemma keys_dict_set_present: "k \<in> set (keys d) \<Longrightarrow> keys (dict_set d k v) = keys d"
  by (induction d) (auto simp: keys_simps)

lemma set_keys_dict_set: "set (keys (dict_set d k v)) = insert k (set (keys d))"
  by (induction d) (auto simp: keys_simps split: if_splits)

lemma set_keys_dict_del: "set (keys (dict_del d k)) = set (keys d) - {k}"
  by (induction d k rule: dict_del.induct) (auto simp: keys_simps)

lemma wf_dict_set: "wf_dict d \<Longrightarrow> wf_dict (dict_set d k v)"
  unfolding wf_dict_def
  by (induction d k v rule: dict_set.induct) (auto simp: keys_simps set_keys_dict_set)

lemma wf_dict_del: "wf_dict d \<Longrightarrow> wf_dict (dict_del d k)"
  unfolding wf_dict_def
  by (induction d k rule: dict_del.induct) (auto simp: keys_simps set_keys_dict_del)

lemma all_positive_Nil: "all_positive []"
  by (simp add: all_positive_def)

lemma all_positive_Cons: "all_positive ((k, q) # d) \<longleftrightarrow> 0 < q \<and> all_positive d"
  by (simp add: all_positive_def)

lemma all_positive_dict_set: "all_positive d \<Longrightarrow> 0 < q \<Longrightarrow> all_positive (dict_set d k q)"
  by (induction d k q rule: dict_set.induct) (auto simp: all_positive_Nil all_positive_Cons)

lemma all_positive_dict_del: "all_positive d \<Longrightarrow> all_positive (dict_del d k)"
  by (induction d k rule: dict_del.induct) (auto simp: all_positive_Nil all_positive_Cons)

lemma keys_nonempty_Nil: "keys_nonempty []"
  by (simp add: keys_nonempty_def)

lemma keys_nonempty_Cons: "keys_nonempty ((k, q) # d) \<longleftrightarrow> k \<noteq> [] \<and> keys_nonempty d"
  by (simp add: keys_nonempty_def)

lemma keys_nonempty_dict_set:
  "keys_nonempty d \<Longrightarrow> k \<noteq> [] \<Longrightarrow> keys_nonempty (dict_set d k q)"
  by (induction d k q rule: dict_set.induct) (auto simp: keys_nonempty_Nil keys_nonempty_Cons)

lemma keys_nonempty_dict_del: "keys_nonempty d \<Longrightarrow> keys_nonempty (dict_del d k)"
  by (induction d k rule: dict_del.induct) (auto simp: keys_nonempty_Nil keys_nonempty_Cons)

section \<open>Argument checks and the builtin \<^verbatim>\<open>int\<close>\<close>

lemma stock_data_log_call: "stock_data (log_call lvl fmt args s) = stock_data s"
  by (simp add: log_call_def)

lemma nonempty_str_None_iff:
  "nonempty_str item = None \<longleftrightarrow> \<not> isinstance_str item \<or> item = PyStr []"
  by (cases item) auto

lemma nonempty_str_Some_iff:
  "nonempty_str item = Some name \<longleftrightarrow> item = PyStr name \<and> name \<noteq> []"
  by (cases item) auto

lemma int_value_None_iff: "int_value qty = None \<longleftrightarrow> \<not> isinstance_int qty"
  by (cases qty) auto

lemmas int_of_str_defs =
  int_of_str_def strip_def is_space_def parse_unsigned_def is_digit_def digit_value_def
  unicode_space_def unicode_decimal_def decimal_zeros_def max_str_digits_def lit_def

lemma int_of_str_notanumber: "int_of_str (lit ''notanumber'') = None"
  by (simp add: int_of_str_defs)

lemma int_of_str_examples:
  "int_of_str (lit '' 42 '') = Some 42" "int_of_str (lit ''-7'') = Some (- 7)"
  "int_of_str (lit ''1_000'') = Some 1000" "int_of_str (lit ''5.0'') = None"
  "int_of_str [] = None" "int_of_str (lit ''+ 5'') = None" "int_of_str (lit ''5__0'') = None"
  "int_of_str (lit ''_5'') = None" "int_of_str (lit ''5_'') = None"
  by (simp_all add: int_of_str_defs)

text \<open>
  Outside ASCII: a no-break space before \<open>-5\<close>, the Arabic-Indic digits three and one, a
  superscript two, and the control character \<open>0x1C\<close>, which \<^verbatim>\<open>int\<close> does not skip.
\<close>

lemma int_of_str_unicode:
  "int_of_str [0xA0, 45, 53] = Some (- 5)" "int_of_str [0x663, 0x661] = Some 31"
  "int_of_str [0xB2] = None" "int_of_str [0x1C, 53] = None"
  by (simp_all add: int_of_str_defs)

lemma parse_unsigned_too_long:
  "max_str_digits < length (filter is_digit s) \<Longrightarrow> parse_unsigned s = None"
  by (cases s) (auto simp: parse_unsigned_def)

lemma float_trunc_examples:
  "float_trunc 23 (- 2) = 5" "float_trunc (- 23) (- 2) = - 5" "float_trunc 5 1 = 10"
  by (simp_all add: float_trunc_def)

section \<open>Adding and removing stock\<close>



text \<open>
  A \<^verbatim>\<open>bool\<close> passes \<^verbatim>\<open>isinstance(qty, int)\<close>: \<^verbatim>\<open>add_item("x", True)\<close> adds one.
\<close>

lemma add_item_bool:
  "stock_data (snd (snd (add_item (PyStr (lit ''x'')) (PyBool True) None empty_state)))
   = [(lit ''x'', 1)]"
  by (simp add: add_item_def Let_def log_call_def dict_get_def empty_state_def)

text \<open>
  For a quantity of more than 4300 digits the sum is stored and then the f-string raises:
  \<^verbatim>\<open>add_item("a", 10 ** 4300)\<close> on the empty ledger.
\<close>

lemma add_item_huge:
  "add_item (PyStr (lit ''a'')) (PyInt huge) (Some []) empty_state
   = (Raised ValueError, [], huge_state)"
  by (simp add: add_item_def Let_def dict_get_def empty_state_def huge_state_def
      str_raises_huge)

text \<open>
  The same ledger is reached by two calls that both return: the quantities
  \<open>10 ** 4300 - 1\<close> and \<open>1\<close> have no more than 4300 digits.
\<close>

lemma not_str_raises_below_huge: "\<not> str_raises (huge - 1)"
proof -
  have "(1::int) \<le> 10 ^ max_str_digits"
    by simp
  then have "\<bar>huge - 1\<bar> < 10 ^ max_str_digits"
    unfolding huge_def by linarith
  then show ?thesis
    by (simp add: str_raises_iff)
qed

lemma huge_state_reached:
  "fst (add_item (PyStr (lit ''a'')) (PyInt (huge - 1)) None empty_state) = Returned
   \<and> fst (add_item (PyStr (lit ''a'')) (PyInt 1) None
            (snd (snd (add_item (PyStr (lit ''a'')) (PyInt (huge - 1)) None empty_state))))
       = Returned
   \<and> stock_data
         (snd (snd (add_item (PyStr (lit ''a'')) (PyInt 1) None
            (snd (snd (add_item (PyStr (lit ''a'')) (PyInt (huge - 1)) None empty_state))))))
       = stock_data huge_state"
  by (simp add: add_item_def Let_def dict_get_def empty_state_def huge_state_def log_call_def
      not_str_raises_below_huge not_str_raises_small)

text \<open>
  Claim C4. For a non-empty string \<open>x\<close> stored with quantity \<open>c\<close> and an integer
  \<open>qty \<ge> c\<close>, \<^verbatim>\<open>remove_item(x, qty)\<close> returns, deletes the entry of \<open>x\<close> and nothing else,
  and \<^verbatim>\<open>get_qty(x)\<close> is 0 afterwards.
\<close>

theorem remove_all_deletes:
  assumes "x \<noteq> []" and "dict_lookup (stock_data s) x = Some c" and "c \<le> qty"
  shows "fst (remove_item (PyStr x) (PyInt qty) s) = Returned
       \<and> stock_data (snd (remove_item (PyStr x) (PyInt qty) s)) = dict_del (stock_data s) x
       \<and> dict_lookup (stock_data (snd (remove_item (PyStr x) (PyInt qty) s))) x = None
       \<and> fst (get_qty (PyStr x) (snd (remove_item (PyStr x) (PyInt qty) s))) = 0"
  using assms
  by (simp add: remove_item_def get_qty_def Let_def log_call_def dict_get_def dict_lookup_del)

theorem remove_all_deletes_witness:
  "dict_lookup (stock_data demo_state) (lit ''banana'') = Some 2 \<and> (2::int) \<le> 3 \<and>
   fst (remove_item (PyStr (lit ''banana'')) (PyInt 3) demo_state) = Returned \<and>
   stock_data (snd (remove_item (PyStr (lit ''banana'')) (PyInt 3) demo_state))
     = [(lit ''apple'', 7)] \<and>
   fst (get_qty (PyStr (lit ''banana''))
          (snd (remove_item (PyStr (lit ''banana'')) (PyInt 3) demo_state))) = 0"
  using remove_all_deletes [of "lit ''banana''" demo_state 2 3]
  by (simp add: demo_state_def)

text \<open>
  Claim C10. For a non-empty string \<open>x\<close> stored with quantity \<open>c\<close> and a negative integer
  \<open>qty\<close> with \<open>c - qty > 0\<close>, \<^verbatim>\<open>remove_item(x, qty)\<close> keeps \<open>x\<close> and stores \<open>c - qty\<close>,
  which is more than \<open>c\<close>: removing a negative quantity increases the stock.
\<close>

theorem remove_negative_increases:
  assumes "x \<noteq> []" and "dict_lookup (stock_data s) x = Some c" and "qty < 0" and "0 < c - qty"
  shows "dict_lookup (stock_data (snd (remove_item (PyStr x) (PyInt qty) s))) x = Some (c - qty)
       \<and> c < c - qty"
  using assms
  by (simp add: remove_item_def Let_def log_call_def dict_lookup_set)

theorem remove_negative_increases_witness:
  "dict_lookup (stock_data demo_state) (lit ''banana'') = Some 2 \<and> (- 3 :: int) < 0 \<and>
   dict_lookup
     (stock_data (snd (remove_item (PyStr (lit ''banana'')) (PyInt (- 3)) demo_state)))
     (lit ''banana'') = Some 5"
  using remove_negative_increases [of "lit ''banana''" demo_state 2 "- 3"]
  by (simp add: demo_state_def)

text \<open>
  Claim C6. When the item is not a string, or is the empty string, or the quantity is not an
  instance of \<^verbatim>\<open>int\<close>, both \<^verbatim>\<open>add_item\<close> and \<^verbatim>\<open>remove_item\<close> return without an
  exception and leave \<^verbatim>\<open>stock_data\<close> as it was; \<^verbatim>\<open>add_item\<close> also leaves the caller's
  \<^verbatim>\<open>logs\<close> list as it was. Only the \<^verbatim>\<open>logging\<close> module receives an error record.
\<close>

theorem invalid_arguments_rejected:
  assumes "\<not> isinstance_str item \<or> item = PyStr [] \<or> \<not> isinstance_int qty"
  shows "fst (add_item item qty logs s) = Returned
       \<and> stock_data (snd (snd (add_item item qty logs s))) = stock_data s
       \<and> fst (snd (add_item item qty logs s)) = (case logs of None \<Rightarrow> [] | Some l \<Rightarrow> l)
       \<and> fst (remove_item item qty s) = Returned
       \<and> stock_data (snd (remove_item item qty s)) = stock_data s"
proof -
  from assms have "nonempty_str item = None \<or> int_value qty = None"
    by (simp add: nonempty_str_None_iff int_value_None_iff)
  then show ?thesis
    by (auto simp: add_item_def remove_item_def Let_def stock_data_log_call split: option.splits)
qed

theorem invalid_arguments_rejected_witness:
  "\<not> isinstance_str (PyInt 123)
   \<and> add_item (PyInt 123) (PyStr (lit ''ten'')) (Some []) demo_state
       = (Returned, [],
          demo_state\<lparr>logging := [(ERROR, ''add_item: 'item' must be a non-empty string'', [])]\<rparr>)
   \<and> stock_data (snd (snd (add_item (PyInt 123) (PyStr (lit ''ten'')) (Some []) demo_state)))
       = stock_data demo_state
   \<and> stock_data (snd (remove_item (PyInt 123) (PyStr (lit ''ten'')) demo_state))
       = stock_data demo_state"
proof -
  have e: "add_item (PyInt 123) (PyStr (lit ''ten'')) (Some []) demo_state
       = (Returned, [],
          demo_state\<lparr>logging := [(ERROR, ''add_item: 'item' must be a non-empty string'', [])]\<rparr>)"
    by (simp add: add_item_def log_call_def demo_state_def)
  show ?thesis
    using invalid_arguments_rejected
      [of "PyInt 123" "PyStr (lit ''ten'')" "Some []" demo_state] e
    by simp
qed

section \<open>Quantities of zero or less\<close>

text \<open>
  \<^verbatim>\<open>remove_item\<close> keeps every quantity above zero: where the difference is zero or less
  it deletes the entry (line 73).
\<close>

lemma remove_item_positive:
  "all_positive (stock_data s) \<Longrightarrow> all_positive (stock_data (snd (remove_item item qty s)))"
  by (auto simp: remove_item_def Let_def stock_data_log_call all_positive_dict_set
      all_positive_dict_del split: option.splits)

text \<open>
  \<^verbatim>\<open>add_item\<close> with valid arguments never deletes: the key is present afterwards, with
  the sum as its quantity, whatever the sign of the sum.
\<close>

lemma add_item_stores_sum:
  assumes "nonempty_str item = Some name" and "int_value qty = Some n"
  shows "dict_lookup (stock_data (snd (snd (add_item item qty logs s)))) name
         = Some (dict_get (stock_data s) name 0 + n)"
  using assms
  by (simp add: add_item_def Let_def stock_data_log_call dict_lookup_set)

text \<open>
  Claim C1: after \<^verbatim>\<open>add_item\<close>, \<^verbatim>\<open>remove_item\<close> and \<^verbatim>\<open>load_data\<close> no entry has a
  quantity of zero or less, an update that would leave one deletes the entry instead.
  \<^verbatim>\<open>remove_item\<close> does so; the other two store the number without looking at it. On the
  empty ledger \<^verbatim>\<open>add_item("x", -5)\<close> returns with the ledger \<^verbatim>\<open>{"x": -5}\<close>, and
  \<^verbatim>\<open>load_data\<close> on a file holding \<^verbatim>\<open>{"a": -3}\<close> returns with the ledger \<^verbatim>\<open>{"a": -3}\<close>.
\<close>

theorem nonpositive_quantity_stored:
  "fst (add_item (PyStr (lit ''x'')) (PyInt (- 5)) None empty_state) = Returned
   \<and> stock_data (snd (snd (add_item (PyStr (lit ''x'')) (PyInt (- 5)) None empty_state)))
       = [(lit ''x'', - 5)]
   \<and> \<not> all_positive
         (stock_data (snd (snd (add_item (PyStr (lit ''x'')) (PyInt (- 5)) None empty_state))))
   \<and> fst (load_data (PyStr (lit ''inventory.json''))
          (one_file (lit ''inventory.json'') (Json (PyDict [(lit ''a'', PyInt (- 3))])))
          empty_state) = Returned
   \<and> stock_data (snd (load_data (PyStr (lit ''inventory.json''))
          (one_file (lit ''inventory.json'') (Json (PyDict [(lit ''a'', PyInt (- 3))])))
          empty_state))
       = [(lit ''a'', - 3)]
   \<and> \<not> all_positive
         (stock_data (snd (load_data (PyStr (lit ''inventory.json''))
            (one_file (lit ''inventory.json'') (Json (PyDict [(lit ''a'', PyInt (- 3))])))
            empty_state)))"
  by (simp add: add_item_def load_data_def Let_def empty_state_def one_file_def log_call_def
      dict_get_def all_positive_def not_str_raises_small)

section \<open>Keys of the ledger\<close>

lemma add_item_keys_nonempty:
  "keys_nonempty (stock_data s) \<Longrightarrow>
   keys_nonempty (stock_data (snd (snd (add_item item qty logs s))))"
  by (auto simp: add_item_def Let_def stock_data_log_call keys_nonempty_dict_set
      nonempty_str_Some_iff split: option.splits)

lemma remove_item_keys_nonempty:
  "keys_nonempty (stock_data s) \<Longrightarrow> keys_nonempty (stock_data (snd (remove_item item qty s)))"
  by (auto simp: remove_item_def Let_def stock_data_log_call keys_nonempty_dict_set
      keys_nonempty_dict_del nonempty_str_Some_iff split: option.splits)

lemma add_item_wf:
  "wf_dict (stock_data s) \<Longrightarrow> wf_dict (stock_data (snd (snd (add_item item qty logs s))))"
  by (auto simp: add_item_def Let_def stock_data_log_call wf_dict_set split: option.splits)

lemma remove_item_wf:
  "wf_dict (stock_data s) \<Longrightarrow> wf_dict (stock_data (snd (remove_item item qty s)))"
  by (auto simp: remove_item_def Let_def stock_data_log_call wf_dict_set wf_dict_del
      split: option.splits)

lemma load_items_wf:
  "wf_dict (stock_data s) \<Longrightarrow> wf_dict (stock_data (snd (load_items items s)))"
proof (induction items s rule: load_items.induct)
  case (1 s)
  then show ?case by simp
next
  case (2 k v rest s)
  then show ?case
    by (cases "py_int v") (auto simp: stock_data_log_call wf_dict_set)
qed

text \<open>
  Claim C5: after every operation each key of the ledger is a non-empty string and each
  value an integer; no operation, \<^verbatim>\<open>load_data\<close> on any JSON file included, introduces an
  empty key. \<^verbatim>\<open>add_item\<close> and \<^verbatim>\<open>remove_item\<close> keep the keys non-empty (the two lemmas
  above), and the values are integers by the type of the ledger. \<^verbatim>\<open>load_data\<close> stores
  every key of the JSON object unchecked: the file \<^verbatim>\<open>{"": 5}\<close> gives the ledger
  \<^verbatim>\<open>{"": 5}\<close>, an entry that \<^verbatim>\<open>get_qty\<close> and \<^verbatim>\<open>remove_item\<close> then refuse to address.
\<close>

theorem load_stores_empty_key:
  "load_data (PyStr (lit ''inventory.json''))
     (one_file (lit ''inventory.json'') (Json (PyDict [([], PyInt 5)]))) empty_state
   = (Returned,
      \<lparr>stock_data = [([], 5)],
       logging = [(INFO, ''load_data: loaded %d items from %s'',
                   [PyInt 1, PyStr (lit ''inventory.json'')])]\<rparr>)
   \<and> \<not> keys_nonempty [([], 5)]
   \<and> fst (get_qty (PyStr []) \<lparr>stock_data = [([], 5)], logging = []\<rparr>) = 0
   \<and> stock_data (snd (remove_item (PyStr []) (PyInt 5) \<lparr>stock_data = [([], 5)], logging = []\<rparr>))
       = [([], 5)]"
  by (simp add: load_data_def one_file_def empty_state_def log_call_def len_stock_def
      keys_nonempty_def get_qty_def remove_item_def)

section \<open>Loading\<close>

text \<open>
  The document of claim C7: \<^verbatim>\<open>load_data\<close> on a file that holds
  \<^verbatim>\<open>{"a": "notanumber", "b": 5}\<close> returns with the ledger \<^verbatim>\<open>{"b": 5}\<close>, whatever the
  ledger was before: \<^verbatim>\<open>int("notanumber")\<close> raises \<^verbatim>\<open>ValueError\<close>, the key \<open>a\<close> is skipped
  with a warning, and \<open>b\<close> is kept.
\<close>

lemma load_skips_uncoercible:
  assumes "path \<noteq> []" and "files fs path = Some (Json mixed_doc)"
  shows "fst (load_data (PyStr path) fs s) = Returned
       \<and> stock_data (snd (load_data (PyStr path) fs s)) = [(lit ''b'', 5)]
       \<and> (WARNING, ''load_data: skipping invalid qty for item '%s': %r'',
            [PyStr (lit ''a''), PyStr (lit ''notanumber'')])
           \<in> set (logging (snd (load_data (PyStr path) fs s)))"
  using assms
  by (simp add: load_data_def mixed_doc_def int_of_str_notanumber log_call_def)

text \<open>
  \<^verbatim>\<open>int\<close> raises one of three exceptions. The loop skips a value for the first two, so
  \<^verbatim>\<open>load_data\<close> on a JSON object returns whenever no value is an infinite float.
\<close>

lemma py_int_errors:
  "py_int v = Inl e \<Longrightarrow> e = TypeError \<or> e = ValueError \<or> e = OverflowError"
proof (cases v)
  case (PyFloat f)
  then show "py_int v = Inl e \<Longrightarrow> ?thesis"
    by (cases f) auto
qed (auto split: option.splits)

lemma py_int_overflow_iff:
  "py_int v = Inl OverflowError \<longleftrightarrow> v = PyFloat FloatInf \<or> v = PyFloat FloatNegInf"
proof (cases v)
  case (PyFloat f)
  then show ?thesis
    by (cases f) auto
qed (auto split: option.splits)

lemma load_items_returns:
  "list_all (\<lambda>(k, v). py_int v \<noteq> Inl OverflowError) items \<Longrightarrow>
   fst (load_items items s) = Returned"
proof (induction items s rule: load_items.induct)
  case (1 s)
  then show ?case by simp
next
  case (2 k v rest s)
  show ?case
  proof (cases "py_int v")
    case (Inl e)
    with 2 py_int_errors [OF Inl] show ?thesis
      by auto
  next
    case (Inr n)
    with 2 show ?thesis
      by auto
  qed
qed

text \<open>
  Claim C7: a key whose value cannot be coerced to an integer is skipped with a warning
  while the other keys are kept, so that \<^verbatim>\<open>load_data\<close> produces a partial ledger and
  does not fail. The handler of the loop names \<^verbatim>\<open>TypeError\<close> and \<^verbatim>\<open>ValueError\<close> and
  misses the third exception of \<^verbatim>\<open>int\<close>: on a file holding
  \<^verbatim>\<open>{"a": 1, "b": 1e999, "c": 3}\<close> the value of \<open>b\<close> is an infinite float,
  \<^verbatim>\<open>OverflowError\<close> reaches the caller, no warning is logged, \<open>c\<close> is never loaded and
  the previous ledger is gone.
\<close>

theorem load_infinite_float_raises:
  "load_data (PyStr (lit ''inventory.json''))
     (one_file (lit ''inventory.json'') (Json overflow_doc)) demo_state
   = (Raised OverflowError, \<lparr>stock_data = [(lit ''a'', 1)], logging = []\<rparr>)"
  by (simp add: load_data_def one_file_def demo_state_def overflow_doc_def)

text \<open>
  Claim C9, as stated: for every path that names no existing file, \<^verbatim>\<open>load_data(path)\<close>
  leaves the ledger empty. The empty string names no file, and for it the argument check
  of \<^verbatim>\<open>load_data\<close> returns before the ledger is cleared: the ledger stays as it was.
\<close>

theorem load_empty_path_keeps_ledger:
  "files no_files [] = None
   \<and> fst (load_data (PyStr []) no_files demo_state) = Returned
   \<and> stock_data (snd (load_data (PyStr []) no_files demo_state))
       = [(lit ''apple'', 7), (lit ''banana'', 2)]
   \<and> stock_data (snd (load_data (PyStr []) no_files demo_state)) \<noteq> []"
  by (simp add: load_data_def no_files_def demo_state_def log_call_def)

text \<open>
  Claim C9, amended. For every non-empty path that names no existing file,
  \<^verbatim>\<open>load_data(path)\<close> returns without an exception and leaves the ledger empty.
\<close>

theorem load_missing_file:
  assumes "path \<noteq> []" and "files fs path = None"
  shows "fst (load_data (PyStr path) fs s) = Returned
       \<and> stock_data (snd (load_data (PyStr path) fs s)) = []"
  using assms by (simp add: load_data_def)

theorem load_missing_file_witness:
  "lit ''inventory.json'' \<noteq> [] \<and> files no_files (lit ''inventory.json'') = None
   \<and> fst (load_data (PyStr (lit ''inventory.json'')) no_files demo_state) = Returned
   \<and> stock_data (snd (load_data (PyStr (lit ''inventory.json'')) no_files demo_state)) = []"
  using load_missing_file [of "lit ''inventory.json''" no_files demo_state]
  by (simp add: no_files_def)

section \<open>Items below a threshold\<close>

lemma low_items_filter:
  "[item. (item, qty) \<leftarrow> d, qty < t] = map fst (filter (\<lambda>(item, qty). qty < (t::int)) d)"
  by (induction d) auto

lemma subseq_map_filter: "subseq (map f (filter P xs)) (map f xs)"
  by (induction xs) auto

text \<open>
  Claim C8. For every ledger and integer threshold \<open>t\<close>, \<^verbatim>\<open>check_low_items(t)\<close> returns
  the keys of the entries with a quantity strictly below \<open>t\<close>, in the order of the ledger:
  the result is the ledger filtered by \<open>qty < t\<close>, it is a subsequence of the keys in
  insertion order, and its elements are exactly the items stored with a quantity below
  \<open>t\<close>. The ledger is not changed. On \<^verbatim>\<open>{"apple": 7, "banana": 2}\<close> the result for 5 is
  \<^verbatim>\<open>["banana"]\<close>.
\<close>

theorem check_low_items_below:
  "fst (check_low_items (PyInt t) s)
     = map fst (filter (\<lambda>(item, qty). qty < t) (stock_data s))
   \<and> snd (check_low_items (PyInt t) s) = s
   \<and> subseq (fst (check_low_items (PyInt t) s)) (keys (stock_data s))
   \<and> (wf_dict (stock_data s) \<longrightarrow>
        set (fst (check_low_items (PyInt t) s))
          = {item. \<exists>qty. dict_lookup (stock_data s) item = Some qty \<and> qty < t})
   \<and> fst (check_low_items (PyInt 5) demo_state) = [lit ''banana'']"
proof -
  have r: "fst (check_low_items (PyInt t) s)
      = map fst (filter (\<lambda>(item, qty). qty < t) (stock_data s))"
    by (simp add: check_low_items_def low_items_filter)
  have u: "snd (check_low_items (PyInt t) s) = s"
    by (simp add: check_low_items_def)
  have o: "subseq (fst (check_low_items (PyInt t) s)) (keys (stock_data s))"
    unfolding r keys_def by (rule subseq_map_filter)
  have m: "set (fst (check_low_items (PyInt t) s))
          = {item. \<exists>qty. dict_lookup (stock_data s) item = Some qty \<and> qty < t}"
    if "wf_dict (stock_data s)"
    unfolding r using dict_lookup_Some_iff [OF that] by force
  have e: "fst (check_low_items (PyInt 5) demo_state) = [lit ''banana'']"
    by (simp add: check_low_items_def demo_state_def)
  from r u o m e show ?thesis
    by blast
qed

theorem check_low_items_below_witness:
  "wf_dict (stock_data three_items)
   \<and> fst (check_low_items (PyInt 5) three_items) = [lit ''pear'', lit ''banana'']
   \<and> {item. \<exists>qty. dict_lookup (stock_data three_items) item = Some qty \<and> qty < 5}
       = {lit ''pear'', lit ''banana''}"
proof -
  have w: "wf_dict (stock_data three_items)"
    by (simp add: three_items_def wf_dict_def keys_def)
  have f: "map fst (filter (\<lambda>(item, qty). qty < 5) (stock_data three_items))
           = [lit ''pear'', lit ''banana'']"
    by (simp add: three_items_def)
  note t = check_low_items_below [of 5 three_items]
  from t f have r: "fst (check_low_items (PyInt 5) three_items) = [lit ''pear'', lit ''banana'']"
    by simp
  from t w have "set (fst (check_low_items (PyInt 5) three_items))
       = {item. \<exists>qty. dict_lookup (stock_data three_items) item = Some qty \<and> qty < 5}"
    by blast
  with r have "{item. \<exists>qty. dict_lookup (stock_data three_items) item = Some qty \<and> qty < 5}
       = {lit ''pear'', lit ''banana''}"
    by simp
  with w r show ?thesis
    by blast
qed

section \<open>Saving and loading\<close>

lemma json_dump_error_None_iff: "json_dump_error d = None \<longleftrightarrow> serialisable d"
  by (induction d rule: json_dump_error.induct) (auto simp: serialisable_def)

text \<open>
  Loading what \<^verbatim>\<open>json.dump\<close> wrote for a dictionary appends its entries, in order, to the
  entries already stored.
\<close>

lemma load_items_dump:
  "wf_dict (acc @ d) \<Longrightarrow> stock_data s = acc \<Longrightarrow>
   load_items (map (\<lambda>(k, q). (k, PyInt q)) d) s = (Returned, s\<lparr>stock_data := acc @ d\<rparr>)"
proof (induction d arbitrary: acc s)
  case Nil
  then show ?case by simp
next
  case (Cons kq d)
  obtain k q where kq: "kq = (k, q)"
    by (cases kq)
  from Cons.prems(1) have absent: "k \<notin> set (keys acc)"
    by (auto simp: wf_dict_def keys_def kq)
  let ?s1 = "s\<lparr>stock_data := dict_set (stock_data s) k q\<rparr>"
  have s1: "stock_data ?s1 = acc @ [(k, q)]"
    using Cons.prems(2) absent by (simp add: dict_set_absent)
  have wf1: "wf_dict ((acc @ [(k, q)]) @ d)"
    using Cons.prems(1) by (simp add: kq)
  have "load_items (map (\<lambda>(k, q). (k, PyInt q)) d) ?s1
        = (Returned, ?s1\<lparr>stock_data := (acc @ [(k, q)]) @ d\<rparr>)"
    by (rule Cons.IH [OF wf1 s1])
  then show ?case
    by (simp add: kq)
qed

text \<open>Whatever the ledger holds, loading a file that \<^verbatim>\<open>json.dump\<close> wrote yields what was dumped.\<close>

lemma load_data_dump:
  assumes "path \<noteq> []" and "files fs path = Some (Json (json_dump d))" and "wf_dict d"
  shows "fst (load_data (PyStr path) fs s) = Returned
       \<and> stock_data (snd (load_data (PyStr path) fs s)) = d"
proof -
  have "load_items (map (\<lambda>(k, q). (k, PyInt q)) d) (s\<lparr>stock_data := []\<rparr>)
        = (Returned, (s\<lparr>stock_data := []\<rparr>)\<lparr>stock_data := [] @ d\<rparr>)"
    using load_items_dump [of "[]" d "s\<lparr>stock_data := []\<rparr>"] assms(3)
    by simp
  with assms(1,2) show ?thesis
    by (simp add: load_data_def json_dump_def stock_data_log_call)
qed

text \<open>
  Claim C3, as stated: for every ledger with non-empty string keys and integer values,
  \<^verbatim>\<open>save_data(path)\<close> followed by \<^verbatim>\<open>load_data(path)\<close> yields the saved ledger. Three
  ledgers and paths for which it does not:
  \<^item> where the file cannot be written, \<^verbatim>\<open>save_data\<close> logs the \<^verbatim>\<open>OSError\<close> and returns,
    and \<^verbatim>\<open>load_data\<close> then finds no file and empties the ledger;
  \<^item> for the ledger \<^verbatim>\<open>{"a": 10 ** 4300}\<close>, \<^verbatim>\<open>json.dump\<close> raises \<^verbatim>\<open>ValueError\<close>, which
    \<^verbatim>\<open>save_data\<close> does not catch; the file is left truncated and \<^verbatim>\<open>load_data\<close> then
    empties the ledger;
  \<^item> for a key with a lone surrogate the same happens with \<^verbatim>\<open>UnicodeEncodeError\<close>.
\<close>

theorem roundtrip_fails:
  "fst (save_data (PyStr (lit ''inventory.json'')) read_only demo_state) = Returned
   \<and> stock_data (snd (load_data (PyStr (lit ''inventory.json''))
        (fst (snd (save_data (PyStr (lit ''inventory.json'')) read_only demo_state)))
        (snd (snd (save_data (PyStr (lit ''inventory.json'')) read_only demo_state))))) = []
   \<and> stock_data demo_state \<noteq> []
   \<and> keys_nonempty (stock_data huge_state) \<and> wf_dict (stock_data huge_state)
   \<and> save_data (PyStr (lit ''inventory.json'')) no_files huge_state
       = (Raised ValueError, one_file (lit ''inventory.json'') NotJson, huge_state)
   \<and> stock_data (snd (load_data (PyStr (lit ''inventory.json''))
        (one_file (lit ''inventory.json'') NotJson) huge_state)) = []
   \<and> stock_data huge_state \<noteq> []
   \<and> keys_nonempty (stock_data surrogate_state)
   \<and> save_data (PyStr (lit ''inventory.json'')) no_files surrogate_state
       = (Raised UnicodeEncodeError, one_file (lit ''inventory.json'') NotJson, surrogate_state)
   \<and> stock_data (snd (load_data (PyStr (lit ''inventory.json''))
        (one_file (lit ''inventory.json'') NotJson) surrogate_state)) = []
   \<and> stock_data surrogate_state \<noteq> []"
proof -
  have fs: "no_files\<lparr>files := (files no_files)(lit ''inventory.json'' \<mapsto> NotJson)\<rparr>
            = one_file (lit ''inventory.json'') NotJson"
    by (auto simp: no_files_def one_file_def)
  have a: "fst (save_data (PyStr (lit ''inventory.json'')) read_only demo_state) = Returned
   \<and> stock_data (snd (load_data (PyStr (lit ''inventory.json''))
        (fst (snd (save_data (PyStr (lit ''inventory.json'')) read_only demo_state)))
        (snd (snd (save_data (PyStr (lit ''inventory.json'')) read_only demo_state))))) = []
   \<and> stock_data demo_state \<noteq> []"
    by (simp add: save_data_def load_data_def read_only_def demo_state_def)
  have b: "keys_nonempty (stock_data huge_state) \<and> wf_dict (stock_data huge_state)
   \<and> stock_data huge_state \<noteq> []"
    by (simp add: huge_state_def keys_nonempty_def wf_dict_def keys_def)
  have c: "save_data (PyStr (lit ''inventory.json'')) no_files huge_state
       = (Raised ValueError, one_file (lit ''inventory.json'') NotJson, huge_state)"
    using fs by (simp add: save_data_def huge_state_def str_raises_huge no_files_def)
  have d: "stock_data (snd (load_data (PyStr (lit ''inventory.json''))
        (one_file (lit ''inventory.json'') NotJson) huge_state)) = []"
    by (simp add: load_data_def one_file_def)
  have e: "keys_nonempty (stock_data surrogate_state)"
    by (simp add: surrogate_state_def keys_nonempty_def)
  have f: "save_data (PyStr (lit ''inventory.json'')) no_files surrogate_state
       = (Raised UnicodeEncodeError, one_file (lit ''inventory.json'') NotJson, surrogate_state)"
    using fs by (simp add: save_data_def surrogate_state_def utf8_encodable_def no_files_def)
  have g: "stock_data (snd (load_data (PyStr (lit ''inventory.json''))
        (one_file (lit ''inventory.json'') NotJson) surrogate_state)) = []
   \<and> stock_data surrogate_state \<noteq> []"
    by (simp add: load_data_def one_file_def surrogate_state_def)
  from a b c d e f g show ?thesis
    by simp
qed

text \<open>
  Claim C3, amended. For every ledger that \<^verbatim>\<open>json.dump\<close> can write (no key holds a lone
  surrogate, no value has more than 4300 digits; the keys are distinct, as in every
  dictionary) and every non-empty path at which the file can be written and read back,
  \<^verbatim>\<open>save_data(path)\<close> returns, leaves the ledger as it was, and a \<^verbatim>\<open>load_data(path)\<close>
  after it returns with the saved ledger, whatever the ledger holds when the load
  starts: the same keys with the same integers, in the same order.
\<close>

theorem save_load_roundtrip:
  assumes "path \<noteq> []" and "open_write fs path = CanWrite"
    and "wf_dict (stock_data s)" and "serialisable (stock_data s)"
  shows "(case save_data (PyStr path) fs s of
            (saved, fs', s1) \<Rightarrow>
              saved = Returned \<and> stock_data s1 = stock_data s
              \<and> (\<forall>s'. fst (load_data (PyStr path) fs' s') = Returned
                     \<and> stock_data (snd (load_data (PyStr path) fs' s')) = stock_data s))"
proof -
  let ?s1 = "log_call INFO ''save_data: saved %d items to %s'' [len_stock s, PyStr path] s"
  let ?fs' = "fs\<lparr>files := (files fs)(path \<mapsto> Json (json_dump (stock_data s)))\<rparr>"
  have "json_dump_error (stock_data s) = None"
    using assms(4) by (simp add: json_dump_error_None_iff)
  then have sv: "save_data (PyStr path) fs s = (Returned, ?fs', ?s1)"
    using assms(1,2) by (simp add: save_data_def)
  have "files ?fs' path = Some (Json (json_dump (stock_data s)))"
    by simp
  then have "fst (load_data (PyStr path) ?fs' s') = Returned
        \<and> stock_data (snd (load_data (PyStr path) ?fs' s')) = stock_data s" for s'
    using assms(1,3) by (intro load_data_dump)
  with sv show ?thesis
    by (simp add: stock_data_log_call)
qed

theorem save_load_roundtrip_witness:
  "lit ''inventory.json'' \<noteq> []
   \<and> open_write no_files (lit ''inventory.json'') = CanWrite
   \<and> wf_dict (stock_data demo_state) \<and> serialisable (stock_data demo_state)
   \<and> fst (save_data (PyStr (lit ''inventory.json'')) no_files demo_state) = Returned
   \<and> files (fst (snd (save_data (PyStr (lit ''inventory.json'')) no_files demo_state)))
        (lit ''inventory.json'')
       = Some (Json (PyDict [(lit ''apple'', PyInt 7), (lit ''banana'', PyInt 2)]))
   \<and> stock_data (snd (load_data (PyStr (lit ''inventory.json''))
        (fst (snd (save_data (PyStr (lit ''inventory.json'')) no_files demo_state)))
        three_items))
      = [(lit ''apple'', 7), (lit ''banana'', 2)]"
proof -
  have c: "open_write no_files (lit ''inventory.json'') = CanWrite"
    by (simp add: no_files_def)
  have w: "wf_dict (stock_data demo_state)"
    by (simp add: demo_state_def wf_dict_def keys_def)
  have j: "serialisable (stock_data demo_state)"
    by (simp add: demo_state_def serialisable_def not_str_raises_small)
  have d: "stock_data demo_state = [(lit ''apple'', 7), (lit ''banana'', 2)]"
    by (simp add: demo_state_def)
  have f: "files (fst (snd (save_data (PyStr (lit ''inventory.json'')) no_files demo_state)))
             (lit ''inventory.json'')
           = Some (Json (PyDict [(lit ''apple'', PyInt 7), (lit ''banana'', PyInt 2)]))"
    by (simp add: save_data_def no_files_def json_dump_def demo_state_def not_str_raises_small)
  have "lit ''inventory.json'' \<noteq> []"
    by simp
  from save_load_roundtrip [OF this c w j] c w j d f show ?thesis
    by (auto simp: case_prod_beta)
qed

end
